theory Spec2Isabelle
  imports Main "HOL-Library.Word"
begin

section \<open>Data model (include/rkmpp\_mjpeg.h, encoder\_internal.h, decoder\_internal.h)\<close>

text \<open>
  The C integer types are words of their width: arithmetic wraps, \<open><\<close> and \<open>div\<close> are
  the unsigned comparison and division of C.
\<close>

type_synonym uint8_t = "8 word"
type_synonym uint32_t = "32 word"
type_synonym uint64_t = "64 word"

text \<open>The status enumeration \<open>RkmppStatus\<close>, with the integer value of each member.\<close>

datatype RkmppStatus =
    RKMPP_OK
  | RKMPP_ERR_INVALID_PARAM
  | RKMPP_ERR_MEMORY
  | RKMPP_ERR_INIT
  | RKMPP_ERR_ENCODE
  | RKMPP_ERR_DECODE
  | RKMPP_ERR_TIMEOUT
  | RKMPP_ERR_NOT_READY
  | RKMPP_ERR_UNKNOWN

fun status_code :: "RkmppStatus \<Rightarrow> int" where
  "status_code RKMPP_OK = 0"
| "status_code RKMPP_ERR_INVALID_PARAM = -1"
| "status_code RKMPP_ERR_MEMORY = -2"
| "status_code RKMPP_ERR_INIT = -3"
| "status_code RKMPP_ERR_ENCODE = -4"
| "status_code RKMPP_ERR_DECODE = -5"
| "status_code RKMPP_ERR_TIMEOUT = -6"
| "status_code RKMPP_ERR_NOT_READY = -7"
| "status_code RKMPP_ERR_UNKNOWN = -99"

text \<open>
  The caller's structures. Field names carry a prefix, since the C structures share the
  names \<open>width\<close> and \<open>height\<close>.
\<close>

record RkmppEncoderConfig =
  cfg_width :: uint32_t
  cfg_height :: uint32_t
  cfg_fps :: uint32_t
  cfg_bitrate :: uint32_t
  cfg_quality :: uint32_t
  cfg_gop :: uint32_t

record RkmppDecoderConfig =
  cfg_max_width :: uint32_t
  cfg_max_height :: uint32_t
  cfg_output_format :: uint32_t

record RkmppFrameInfo =
  fi_width :: uint32_t
  fi_height :: uint32_t
  fi_format :: uint32_t
  fi_timestamp :: uint64_t

text \<open>
  The session structures. A field that holds a pointer to a backend object records whether
  the pointer is non-null; the \<open>pthread_mutex_t\<close> is left out, the model being the
  sequential behaviour of one call at a time.
\<close>

record RkmppEncoder =
  enc_mpp_ctx :: bool
  enc_mpi :: bool
  enc_frame_group :: bool
  enc_packet_group :: bool
  enc_width :: uint32_t
  enc_height :: uint32_t
  enc_fps :: uint32_t
  enc_bitrate :: uint32_t
  enc_quality :: uint32_t
  enc_frames_encoded :: uint64_t
  enc_bytes_encoded :: uint64_t
  enc_initialized :: int
  enc_eos_sent :: int

record RkmppDecoder =
  dec_mpp_ctx :: bool
  dec_mpi :: bool
  dec_frame_group :: bool
  dec_packet_group :: bool
  dec_max_width :: uint32_t
  dec_max_height :: uint32_t
  dec_output_format :: uint32_t
  dec_frames_decoded :: uint64_t
  dec_bytes_decoded :: uint64_t
  dec_initialized :: int
  dec_eos_received :: int

section \<open>The allocator\<close>

text \<open>
  \<open>malloc\<close> may fail. The heap state lists the outcomes of the coming calls (a call
  past the end of the list succeeds) and counts the blocks that are allocated and not
  freed. \<open>malloc\<close> returns whether the pointer is non-null; \<open>free\<close> of a null
  pointer does nothing.
\<close>

record heap =
  outcomes :: "bool list"
  live :: nat

definition malloc :: "heap \<Rightarrow> bool \<times> heap" where
  "malloc h =
     (case outcomes h of
        [] \<Rightarrow> (True, h\<lparr>live := live h + 1\<rparr>)
      | ok # rest \<Rightarrow>
          (ok, h\<lparr>outcomes := rest, live := (if ok then live h + 1 else live h)\<rparr>))"

definition free :: "bool \<Rightarrow> heap \<Rightarrow> heap" where
  "free p h = (if p then h\<lparr>live := live h - 1\<rparr> else h)"

section \<open>The mock backend (the static functions at the end of encoder.c and decoder.c)\<close>

text \<open>
  Both files define the same mock functions; one copy serves both. Each returns its
  \<open>int\<close> result, the pointers it stores, and the heap.
\<close>

definition MPP_VIDEO_CodingMJPEG :: nat where
  "MPP_VIDEO_CodingMJPEG = 8"

definition mpp_create :: "heap \<Rightarrow> int \<times> bool \<times> bool \<times> heap" where
  "mpp_create h =
     (case malloc h of (ctx, h1) \<Rightarrow>
      case malloc h1 of (mpi, h2) \<Rightarrow> (0, ctx, mpi, h2))"

definition mpp_init :: "bool \<Rightarrow> nat \<Rightarrow> int \<Rightarrow> int" where
  "mpp_init ctx coding is_encoder = 0"

definition mpp_destroy :: "bool \<Rightarrow> heap \<Rightarrow> int \<times> heap" where
  "mpp_destroy ctx h = (0, free ctx h)"

definition mpp_buffer_group_get_internal :: "uint32_t \<Rightarrow> heap \<Rightarrow> int \<times> bool \<times> heap" where
  "mpp_buffer_group_get_internal buffer_type h = (case malloc h of (grp, h1) \<Rightarrow> (0, grp, h1))"

definition mpp_buffer_group_put :: "bool \<Rightarrow> heap \<Rightarrow> int \<times> heap" where
  "mpp_buffer_group_put grp h = (0, free grp h)"

section \<open>Helper functions\<close>

text \<open>\<open>calculate_nv12_size\<close>, the static helper of both encoder.c and decoder.c.\<close>

definition calculate_nv12_size :: "uint32_t \<Rightarrow> uint32_t \<Rightarrow> uint32_t" where
  "calculate_nv12_size width height = (width * height * 3) div 2"

text \<open>\<open>rkmpp_get_nv12_size\<close> of utils.c.\<close>

definition rkmpp_get_nv12_size :: "uint32_t \<Rightarrow> uint32_t \<Rightarrow> uint32_t" where
  "rkmpp_get_nv12_size width height =
     (if width = 0 \<or> height = 0 then 0 else (width * height * 3) div 2)"

text \<open>The configuration checks; \<open>None\<close> is the null pointer.\<close>

definition validate_encoder_config :: "RkmppEncoderConfig option \<Rightarrow> int" where
  "validate_encoder_config config =
     (case config of
        None \<Rightarrow> -1
      | Some c \<Rightarrow>
          if cfg_width c < 16 \<or> cfg_width c > 4096 \<or>
             cfg_height c < 16 \<or> cfg_height c > 4096 then -1
          else if cfg_fps c < 1 \<or> cfg_fps c > 120 then -1
          else if cfg_quality c > 100 then -1
          else 0)"

definition validate_decoder_config :: "RkmppDecoderConfig option \<Rightarrow> int" where
  "validate_decoder_config config =
     (case config of
        None \<Rightarrow> -1
      | Some c \<Rightarrow>
          if cfg_max_width c < 16 \<or> cfg_max_width c > 4096 \<or>
             cfg_max_height c < 16 \<or> cfg_max_height c > 4096 then -1
          else 0)"

text \<open>
  \<open>memcpy (dst, src, n)\<close> on buffers held as byte lists: the first \<open>n\<close> bytes of the
  destination become those of the source. The C call is defined only when both buffers
  hold \<open>n\<close> bytes.
\<close>

definition memcpy :: "uint8_t list \<Rightarrow> uint8_t list \<Rightarrow> nat \<Rightarrow> uint8_t list" where
  "memcpy dst src n = take n src @ drop n dst"

section \<open>Encoder (encoder.c)\<close>

text \<open>
  The internal functions are called with the pointer to the structure just allocated,
  never with a null pointer, so they take the structure itself.
\<close>

definition encoder_init_mpp :: "RkmppEncoder \<Rightarrow> heap \<Rightarrow> int \<times> RkmppEncoder \<times> heap" where
  "encoder_init_mpp encoder h =
     (case mpp_create h of (ret, ctx, mpi, h1) \<Rightarrow>
      let e1 = encoder\<lparr>enc_mpp_ctx := ctx, enc_mpi := mpi\<rparr> in
      if ret \<noteq> 0 then (-1, e1, h1)
      else if mpp_init (enc_mpp_ctx e1) MPP_VIDEO_CodingMJPEG 1 \<noteq> 0
      then (-1, e1, snd (mpp_destroy (enc_mpp_ctx e1) h1))
      else
       (case mpp_buffer_group_get_internal 0 h1 of (ret, fg, h2) \<Rightarrow>
        let e2 = e1\<lparr>enc_frame_group := fg\<rparr> in
        if ret \<noteq> 0 then (-1, e2, snd (mpp_destroy (enc_mpp_ctx e2) h2))
        else
         (case mpp_buffer_group_get_internal 1 h2 of (ret, pg, h3) \<Rightarrow>
          let e3 = e2\<lparr>enc_packet_group := pg\<rparr> in
          if ret \<noteq> 0
          then (-1, e3, snd (mpp_destroy (enc_mpp_ctx e3)
                              (snd (mpp_buffer_group_put (enc_frame_group e3) h3))))
          else (0, e3, h3))))"

definition encoder_configure :: "RkmppEncoder \<Rightarrow> int" where
  "encoder_configure encoder = 0"

definition encoder_cleanup_mpp :: "RkmppEncoder \<Rightarrow> heap \<Rightarrow> RkmppEncoder \<times> heap" where
  "encoder_cleanup_mpp encoder h =
     (let (e1, h1) =
            (if enc_packet_group encoder
             then (encoder\<lparr>enc_packet_group := False\<rparr>,
                   snd (mpp_buffer_group_put (enc_packet_group encoder) h))
             else (encoder, h));
          (e2, h2) =
            (if enc_frame_group e1
             then (e1\<lparr>enc_frame_group := False\<rparr>,
                   snd (mpp_buffer_group_put (enc_frame_group e1) h1))
             else (e1, h1));
          (e3, h3) =
            (if enc_mpp_ctx e2
             then (e2\<lparr>enc_mpp_ctx := False\<rparr>, snd (mpp_destroy (enc_mpp_ctx e2) h2))
             else (e2, h2))
      in (e3\<lparr>enc_mpi := False\<rparr>, h3))"

text \<open>The structure after \<open>memset (encoder, 0, sizeof (RkmppEncoder))\<close>.\<close>

definition zeroed_encoder :: RkmppEncoder where
  "zeroed_encoder =
     \<lparr>enc_mpp_ctx = False, enc_mpi = False, enc_frame_group = False,
      enc_packet_group = False, enc_width = 0, enc_height = 0, enc_fps = 0,
      enc_bitrate = 0, enc_quality = 0, enc_frames_encoded = 0, enc_bytes_encoded = 0,
      enc_initialized = 0, enc_eos_sent = 0\<rparr>"

text \<open>
  \<open>rkmpp_encoder_create\<close>: the handle returned (\<open>None\<close> is NULL, \<open>Some\<close> holds the
  structure the handle points to) and the heap afterwards.
\<close>

definition rkmpp_encoder_create ::
  "RkmppEncoderConfig option \<Rightarrow> heap \<Rightarrow> RkmppEncoder option \<times> heap" where
  "rkmpp_encoder_create config h =
     (case config of
        None \<Rightarrow> (None, h)
      | Some c \<Rightarrow>
          if validate_encoder_config config \<noteq> 0 then (None, h)
          else
           (case malloc h of (p, h1) \<Rightarrow>
            if p = False then (None, h1)
            else
              let e0 = zeroed_encoder\<lparr>
                         enc_width := cfg_width c,
                         enc_height := cfg_height c,
                         enc_fps := cfg_fps c,
                         enc_bitrate := cfg_bitrate c,
                         enc_quality := (if cfg_quality c \<noteq> 0 then cfg_quality c else 80)\<rparr>
              in
               (case encoder_init_mpp e0 h1 of (ret, e1, h2) \<Rightarrow>
                if ret \<noteq> 0 then (None, free p h2)
                else if encoder_configure e1 \<noteq> 0
                then (None, free p (snd (encoder_cleanup_mpp e1 h2)))
                else (Some (e1\<lparr>enc_initialized := 1\<rparr>), h2))))"

text \<open>
  \<open>rkmpp_encoder_encode\<close>. A pointer argument is \<open>None\<close> when null; a buffer pointer
  holds the buffer's bytes, \<open>jpeg_len\<close> the value at the output location. The result
  gives the status and the memory the call may have written: the session structure, the
  output buffer and the output location.
\<close>

record encode_result =
  er_status :: RkmppStatus
  er_encoder :: "RkmppEncoder option"
  er_jpeg_data :: "uint8_t list option"
  er_jpeg_len :: "uint32_t option"

definition rkmpp_encoder_encode ::
  "RkmppEncoder option \<Rightarrow> uint8_t list option \<Rightarrow> uint32_t \<Rightarrow> uint8_t list option \<Rightarrow>
   uint32_t \<Rightarrow> uint32_t option \<Rightarrow> encode_result" where
  "rkmpp_encoder_encode encoder nv12_data nv12_size jpeg_data jpeg_size jpeg_len =
     (let untouched = (\<lambda>st. \<lparr>er_status = st, er_encoder = encoder,
                              er_jpeg_data = jpeg_data, er_jpeg_len = jpeg_len\<rparr>) in
      case encoder of None \<Rightarrow> untouched RKMPP_ERR_INVALID_PARAM | Some enc \<Rightarrow>
      case nv12_data of None \<Rightarrow> untouched RKMPP_ERR_INVALID_PARAM | Some src \<Rightarrow>
      case jpeg_data of None \<Rightarrow> untouched RKMPP_ERR_INVALID_PARAM | Some dst \<Rightarrow>
      case jpeg_len of None \<Rightarrow> untouched RKMPP_ERR_INVALID_PARAM | Some old_len \<Rightarrow>
        if enc_initialized enc = 0 then untouched RKMPP_ERR_INIT
        else
          let expected_size = calculate_nv12_size (enc_width enc) (enc_height enc) in
          if nv12_size < expected_size then untouched RKMPP_ERR_INVALID_PARAM
          else if jpeg_size < expected_size then untouched RKMPP_ERR_INVALID_PARAM
          else
            let copy_size = (if jpeg_size < nv12_size then jpeg_size else nv12_size) in
            \<lparr>er_status = RKMPP_OK,
             er_encoder = Some (enc\<lparr>
               enc_frames_encoded := enc_frames_encoded enc + 1,
               enc_bytes_encoded := enc_bytes_encoded enc + ucast copy_size\<rparr>),
             er_jpeg_data = Some (memcpy dst src (unat copy_size)),
             er_jpeg_len = Some copy_size\<rparr>)"

text \<open>
  \<open>rkmpp_encoder_get_stats\<close>: the status and the two output locations (an output
  pointer may be null).
\<close>

definition rkmpp_encoder_get_stats ::
  "RkmppEncoder option \<Rightarrow> uint64_t option \<Rightarrow> uint64_t option \<Rightarrow>
   RkmppStatus \<times> uint64_t option \<times> uint64_t option" where
  "rkmpp_encoder_get_stats encoder frames_encoded bytes_encoded =
     (case encoder of
        None \<Rightarrow> (RKMPP_ERR_INVALID_PARAM, frames_encoded, bytes_encoded)
      | Some enc \<Rightarrow>
          (RKMPP_OK,
           (case frames_encoded of None \<Rightarrow> None | Some old \<Rightarrow> Some (enc_frames_encoded enc)),
           (case bytes_encoded of None \<Rightarrow> None | Some old \<Rightarrow> Some (enc_bytes_encoded enc))))"

section \<open>Decoder (decoder.c)\<close>

definition decoder_init_mpp :: "RkmppDecoder \<Rightarrow> heap \<Rightarrow> int \<times> RkmppDecoder \<times> heap" where
  "decoder_init_mpp decoder h =
     (case mpp_create h of (ret, ctx, mpi, h1) \<Rightarrow>
      let d1 = decoder\<lparr>dec_mpp_ctx := ctx, dec_mpi := mpi\<rparr> in
      if ret \<noteq> 0 then (-1, d1, h1)
      else if mpp_init (dec_mpp_ctx d1) MPP_VIDEO_CodingMJPEG 0 \<noteq> 0
      then (-1, d1, snd (mpp_destroy (dec_mpp_ctx d1) h1))
      else
       (case mpp_buffer_group_get_internal 0 h1 of (ret, fg, h2) \<Rightarrow>
        let d2 = d1\<lparr>dec_frame_group := fg\<rparr> in
        if ret \<noteq> 0 then (-1, d2, snd (mpp_destroy (dec_mpp_ctx d2) h2))
        else
         (case mpp_buffer_group_get_internal 1 h2 of (ret, pg, h3) \<Rightarrow>
          let d3 = d2\<lparr>dec_packet_group := pg\<rparr> in
          if ret \<noteq> 0
          then (-1, d3, snd (mpp_destroy (dec_mpp_ctx d3)
                              (snd (mpp_buffer_group_put (dec_frame_group d3) h3))))
          else (0, d3, h3))))"

definition decoder_configure :: "RkmppDecoder \<Rightarrow> int" where
  "decoder_configure decoder = 0"

definition decoder_cleanup_mpp :: "RkmppDecoder \<Rightarrow> heap \<Rightarrow> RkmppDecoder \<times> heap" where
  "decoder_cleanup_mpp decoder h =
     (let (d1, h1) =
            (if dec_packet_group decoder
             then (decoder\<lparr>dec_packet_group := False\<rparr>,
                   snd (mpp_buffer_group_put (dec_packet_group decoder) h))
             else (decoder, h));
          (d2, h2) =
            (if dec_frame_group d1
             then (d1\<lparr>dec_frame_group := False\<rparr>,
                   snd (mpp_buffer_group_put (dec_frame_group d1) h1))
             else (d1, h1));
          (d3, h3) =
            (if dec_mpp_ctx d2
             then (d2\<lparr>dec_mpp_ctx := False\<rparr>, snd (mpp_destroy (dec_mpp_ctx d2) h2))
             else (d2, h2))
      in (d3\<lparr>dec_mpi := False\<rparr>, h3))"

definition zeroed_decoder :: RkmppDecoder where
  "zeroed_decoder =
     \<lparr>dec_mpp_ctx = False, dec_mpi = False, dec_frame_group = False,
      dec_packet_group = False, dec_max_width = 0, dec_max_height = 0,
      dec_output_format = 0, dec_frames_decoded = 0, dec_bytes_decoded = 0,
      dec_initialized = 0, dec_eos_received = 0\<rparr>"

definition rkmpp_decoder_create ::
  "RkmppDecoderConfig option \<Rightarrow> heap \<Rightarrow> RkmppDecoder option \<times> heap" where
  "rkmpp_decoder_create config h =
     (case config of
        None \<Rightarrow> (None, h)
      | Some c \<Rightarrow>
          if validate_decoder_config config \<noteq> 0 then (None, h)
          else
           (case malloc h of (p, h1) \<Rightarrow>
            if p = False then (None, h1)
            else
              let d0 = zeroed_decoder\<lparr>
                         dec_max_width := cfg_max_width c,
                         dec_max_height := cfg_max_height c,
                         dec_output_format := cfg_output_format c\<rparr>
              in
               (case decoder_init_mpp d0 h1 of (ret, d1, h2) \<Rightarrow>
                if ret \<noteq> 0 then (None, free p h2)
                else if decoder_configure d1 \<noteq> 0
                then (None, free p (snd (decoder_cleanup_mpp d1 h2)))
                else (Some (d1\<lparr>dec_initialized := 1\<rparr>), h2))))"

record decode_result =
  dr_status :: RkmppStatus
  dr_decoder :: "RkmppDecoder option"
  dr_nv12_data :: "uint8_t list option"
  dr_nv12_len :: "uint32_t option"
  dr_frame_info :: "RkmppFrameInfo option"

definition rkmpp_decoder_decode ::
  "RkmppDecoder option \<Rightarrow> uint8_t list option \<Rightarrow> uint32_t \<Rightarrow> uint8_t list option \<Rightarrow>
   uint32_t \<Rightarrow> uint32_t option \<Rightarrow> RkmppFrameInfo option \<Rightarrow> decode_result" where
  "rkmpp_decoder_decode decoder jpeg_data jpeg_size nv12_data nv12_size nv12_len frame_info =
     (let untouched = (\<lambda>st. \<lparr>dr_status = st, dr_decoder = decoder, dr_nv12_data = nv12_data,
                              dr_nv12_len = nv12_len, dr_frame_info = frame_info\<rparr>) in
      case decoder of None \<Rightarrow> untouched RKMPP_ERR_INVALID_PARAM | Some dec \<Rightarrow>
      case jpeg_data of None \<Rightarrow> untouched RKMPP_ERR_INVALID_PARAM | Some src \<Rightarrow>
      case nv12_data of None \<Rightarrow> untouched RKMPP_ERR_INVALID_PARAM | Some dst \<Rightarrow>
      case nv12_len of None \<Rightarrow> untouched RKMPP_ERR_INVALID_PARAM | Some old_len \<Rightarrow>
      case frame_info of None \<Rightarrow> untouched RKMPP_ERR_INVALID_PARAM | Some old_info \<Rightarrow>
        if dec_initialized dec = 0 then untouched RKMPP_ERR_INIT
        else if jpeg_size = 0 then untouched RKMPP_ERR_INVALID_PARAM
        else
          let copy_size = (if nv12_size < jpeg_size then nv12_size else jpeg_size) in
          \<lparr>dr_status = RKMPP_OK,
           dr_decoder = Some (dec\<lparr>
             dec_frames_decoded := dec_frames_decoded dec + 1,
             dec_bytes_decoded := dec_bytes_decoded dec + ucast copy_size\<rparr>),
           dr_nv12_data = Some (memcpy dst src (unat copy_size)),
           dr_nv12_len = Some copy_size,
           dr_frame_info = Some (old_info\<lparr>
             fi_width := dec_max_width dec,
             fi_height := dec_max_height dec,
             fi_format := 0,
             fi_timestamp := 0\<rparr>)\<rparr>)"

definition rkmpp_decoder_get_stats ::
  "RkmppDecoder option \<Rightarrow> uint64_t option \<Rightarrow> uint64_t option \<Rightarrow>
   RkmppStatus \<times> uint64_t option \<times> uint64_t option" where
  "rkmpp_decoder_get_stats decoder frames_decoded bytes_decoded =
     (case decoder of
        None \<Rightarrow> (RKMPP_ERR_INVALID_PARAM, frames_decoded, bytes_decoded)
      | Some dec \<Rightarrow>
          (RKMPP_OK,
           (case frames_decoded of None \<Rightarrow> None | Some old \<Rightarrow> Some (dec_frames_decoded dec)),
           (case bytes_decoded of None \<Rightarrow> None | Some old \<Rightarrow> Some (dec_bytes_decoded dec))))"

section \<open>Sequences of calls on one session\<close>

text \<open>
  A caller that keeps one handle and calls encode (decode) once for each element of a list
  of argument tuples. The result is the session structure after the last call and the
  result of every call, in order.
\<close>

type_synonym encode_args =
  "uint8_t list option \<times> uint32_t \<times> uint8_t list option \<times> uint32_t \<times> uint32_t option"

type_synonym decode_args =
  "uint8_t list option \<times> uint32_t \<times> uint8_t list option \<times> uint32_t \<times> uint32_t option \<times>
   RkmppFrameInfo option"

fun encoder_calls :: "RkmppEncoder option \<Rightarrow> encode_args list \<Rightarrow>
    RkmppEncoder option \<times> encode_result list" where
  "encoder_calls encoder [] = (encoder, [])"
| "encoder_calls encoder ((nv12_data, nv12_size, jpeg_data, jpeg_size, jpeg_len) # calls) =
     (let r = rkmpp_encoder_encode encoder nv12_data nv12_size jpeg_data jpeg_size jpeg_len;
          (encoder', rs) = encoder_calls (er_encoder r) calls
      in (encoder', r # rs))"

fun decoder_calls :: "RkmppDecoder option \<Rightarrow> decode_args list \<Rightarrow>
    RkmppDecoder option \<times> decode_result list" where
  "decoder_calls decoder [] = (decoder, [])"
| "decoder_calls decoder
     ((jpeg_data, jpeg_size, nv12_data, nv12_size, nv12_len, frame_info) # calls) =
     (let r = rkmpp_decoder_decode decoder jpeg_data jpeg_size nv12_data nv12_size nv12_len
                frame_info;
          (decoder', rs) = decoder_calls (dr_decoder r) calls
      in (decoder', r # rs))"

text \<open>The size a call reports through its output location (0 when the location is null).\<close>

definition encode_produced :: "encode_result \<Rightarrow> uint32_t" where
  "encode_produced r = (case er_jpeg_len r of None \<Rightarrow> 0 | Some n \<Rightarrow> n)"

definition decode_produced :: "decode_result \<Rightarrow> uint32_t" where
  "decode_produced r = (case dr_nv12_len r of None \<Rightarrow> 0 | Some n \<Rightarrow> n)"

section \<open>Facts about the helpers\<close>

lemma calculate_nv12_size_eq: "calculate_nv12_size w h = rkmpp_get_nv12_size w h"
  by (simp add: calculate_nv12_size_def rkmpp_get_nv12_size_def)

lemma nv12_product_bound:
  fixes w h :: uint32_t
  assumes "w \<le> 4096" "h \<le> 4096"
  shows "unat w * unat h * 3 < 2 ^ 32"
proof -
  have "unat w \<le> 4096" "unat h \<le> 4096"
    using assms by (simp_all add: word_le_nat_alt)
  then have "unat w * unat h \<le> 4096 * 4096"
    by (rule mult_le_mono)
  then show ?thesis by simp
qed

lemma unat_nv12_size:
  fixes w h :: uint32_t
  assumes "w \<le> 4096" "h \<le> 4096"
  shows "unat ((w * h * 3) div 2) = unat w * unat h * 3 div 2"
proof -
  have b: "unat w * unat h * 3 < 2 ^ 32" using assms by (rule nv12_product_bound)
  then have b': "unat w * unat h < 2 ^ 32" by simp
  have "unat (w * h) = unat w * unat h"
    using b' by (simp add: unat_word_ariths)
  then have "unat (w * h * 3) = unat w * unat h * 3"
    using b by (simp add: unat_word_ariths)
  then show ?thesis by (simp add: unat_div)
qed

section \<open>The raw frame size\<close>

text \<open>
  C4, as amended. \<open>rkmpp_get_nv12_size\<close> returns 0 when the width or the height is 0.
  For \<open>16 \<le> w, h \<le> 4096\<close> the 32-bit product does not wrap and the result is exactly
  \<open>w * h * 3 / 2\<close> (integer division). The result is even whenever \<open>w * h\<close> is a
  multiple of 4.
\<close>

theorem nv12_size_formula:
  fixes w h :: uint32_t
  shows "rkmpp_get_nv12_size 0 h = 0 \<and> rkmpp_get_nv12_size w 0 = 0 \<and>
    (16 \<le> w \<and> w \<le> 4096 \<and> 16 \<le> h \<and> h \<le> 4096 \<longrightarrow>
       unat (rkmpp_get_nv12_size w h) = unat w * unat h * 3 div 2 \<and>
       (4 dvd unat w * unat h \<longrightarrow> even (unat (rkmpp_get_nv12_size w h))))"
proof (intro conjI impI)
  show "rkmpp_get_nv12_size 0 h = 0" by (simp add: rkmpp_get_nv12_size_def)
  show "rkmpp_get_nv12_size w 0 = 0" by (simp add: rkmpp_get_nv12_size_def)
next
  assume r: "16 \<le> w \<and> w \<le> 4096 \<and> 16 \<le> h \<and> h \<le> 4096"
  then have nz: "w \<noteq> 0" "h \<noteq> 0" by auto
  show eq: "unat (rkmpp_get_nv12_size w h) = unat w * unat h * 3 div 2"
    using r nz by (simp add: rkmpp_get_nv12_size_def unat_nv12_size)
  assume "4 dvd unat w * unat h"
  then obtain k where "unat w * unat h = 4 * k" by (auto elim: dvdE)
  then show "even (unat (rkmpp_get_nv12_size w h))"
    by (simp add: eq)
qed

theorem nv12_size_formula_witness:
  "(16::uint32_t) \<le> 640 \<and> (640::uint32_t) \<le> 4096 \<and>
   (16::uint32_t) \<le> 480 \<and> (480::uint32_t) \<le> 4096 \<and>
   4 dvd unat (640::uint32_t) * unat (480::uint32_t) \<and>
   rkmpp_get_nv12_size 0 480 = 0 \<and> rkmpp_get_nv12_size 640 0 = 0 \<and>
   unat (rkmpp_get_nv12_size 640 480) = 460800 \<and>
   even (unat (rkmpp_get_nv12_size 640 480))"
  using nv12_size_formula [of 480 640] by simp

text \<open>
  The claim as first stated asks for an even result whenever \<open>w * h\<close> is a multiple of 2.
  At \<open>w = 17\<close>, \<open>h = 18\<close> both dimensions are in range and \<open>w * h = 306\<close> is even, but
  the result is \<open>306 * 3 / 2 = 459\<close>.
\<close>

theorem nv12_size_parity_counterexample:
  "(16::uint32_t) \<le> 17 \<and> (17::uint32_t) \<le> 4096 \<and>
   (16::uint32_t) \<le> 18 \<and> (18::uint32_t) \<le> 4096 \<and>
   even (unat (17::uint32_t) * unat (18::uint32_t)) \<and>
   unat (rkmpp_get_nv12_size 17 18) = 459 \<and> odd (unat (rkmpp_get_nv12_size 17 18))"
  by (simp add: rkmpp_get_nv12_size_def)

section \<open>Facts about session creation\<close>

text \<open>
  The mock backend never reports a failure, so the initialisation always returns 0; the
  four pointers it stores are whatever \<open>malloc\<close> returned.
\<close>

lemma encoder_init_mpp_result:
  "\<exists>a b c d h'. encoder_init_mpp e h =
     (0, e\<lparr>enc_mpp_ctx := a, enc_mpi := b, enc_frame_group := c, enc_packet_group := d\<rparr>, h')"
proof -
  obtain a h1 where m1: "malloc h = (a, h1)" by (cases "malloc h")
  obtain b h2 where m2: "malloc h1 = (b, h2)" by (cases "malloc h1")
  obtain c h3 where m3: "malloc h2 = (c, h3)" by (cases "malloc h2")
  obtain d h4 where m4: "malloc h3 = (d, h4)" by (cases "malloc h3")
  have "encoder_init_mpp e h =
     (0, e\<lparr>enc_mpp_ctx := a, enc_mpi := b, enc_frame_group := c, enc_packet_group := d\<rparr>, h4)"
    by (simp add: encoder_init_mpp_def mpp_create_def mpp_init_def
        mpp_buffer_group_get_internal_def m1 m2 m3 m4)
  then show ?thesis by blast
qed

lemma encoder_create_valid:
  assumes v: "validate_encoder_config (Some c) = 0" and m: "malloc h = (True, h1)"
  shows "\<exists>a b f g h'. rkmpp_encoder_create (Some c) h =
     (Some \<lparr>enc_mpp_ctx = a, enc_mpi = b, enc_frame_group = f, enc_packet_group = g,
            enc_width = cfg_width c, enc_height = cfg_height c, enc_fps = cfg_fps c,
            enc_bitrate = cfg_bitrate c,
            enc_quality = (if cfg_quality c \<noteq> 0 then cfg_quality c else 80),
            enc_frames_encoded = 0, enc_bytes_encoded = 0,
            enc_initialized = 1, enc_eos_sent = 0\<rparr>, h')"
proof -
  let ?e0 = "zeroed_encoder\<lparr>enc_width := cfg_width c, enc_height := cfg_height c,
      enc_fps := cfg_fps c, enc_bitrate := cfg_bitrate c,
      enc_quality := (if cfg_quality c \<noteq> 0 then cfg_quality c else 80)\<rparr>"
  obtain a b f g h' where i: "encoder_init_mpp ?e0 h1 =
      (0, ?e0\<lparr>enc_mpp_ctx := a, enc_mpi := b, enc_frame_group := f, enc_packet_group := g\<rparr>, h')"
    using encoder_init_mpp_result [of ?e0 h1] by blast
  have "rkmpp_encoder_create (Some c) h =
     (Some (?e0\<lparr>enc_mpp_ctx := a, enc_mpi := b, enc_frame_group := f, enc_packet_group := g,
        enc_initialized := 1\<rparr>), h')"
    unfolding rkmpp_encoder_create_def
    by (simp only: option.case v m i Let_def prod.case encoder_configure_def) simp
  then show ?thesis
    by (simp add: zeroed_encoder_def)
qed

lemma encoder_create_Some_valid:
  assumes "rkmpp_encoder_create config h = (Some enc, h')"
  shows "\<exists>c h1. config = Some c \<and> validate_encoder_config (Some c) = 0 \<and> malloc h = (True, h1)"
proof (cases config)
  case None
  with assms show ?thesis by (simp add: rkmpp_encoder_create_def)
next
  case (Some c)
  obtain p h1 where m: "malloc h = (p, h1)" by (cases "malloc h")
  have v: "validate_encoder_config (Some c) = 0"
    using assms Some
    by (cases "validate_encoder_config (Some c) = 0") (simp_all add: rkmpp_encoder_create_def)
  have "p"
    using assms Some v m by (cases p) (simp_all add: rkmpp_encoder_create_def)
  with Some v m show ?thesis by simp
qed

lemma encoder_create_Some:
  assumes "rkmpp_encoder_create config h = (Some enc, h')"
  shows "\<exists>c. config = Some c \<and> validate_encoder_config (Some c) = 0 \<and>
     enc_width enc = cfg_width c \<and> enc_height enc = cfg_height c \<and>
     enc_fps enc = cfg_fps c \<and> enc_bitrate enc = cfg_bitrate c \<and>
     enc_quality enc = (if cfg_quality c \<noteq> 0 then cfg_quality c else 80) \<and>
     enc_frames_encoded enc = 0 \<and> enc_bytes_encoded enc = 0 \<and> enc_initialized enc = 1"
proof -
  obtain c h1 where c: "config = Some c" "validate_encoder_config (Some c) = 0"
      "malloc h = (True, h1)"
    using encoder_create_Some_valid [OF assms] by blast
  obtain a b f g h'' where "rkmpp_encoder_create (Some c) h =
     (Some \<lparr>enc_mpp_ctx = a, enc_mpi = b, enc_frame_group = f, enc_packet_group = g,
            enc_width = cfg_width c, enc_height = cfg_height c, enc_fps = cfg_fps c,
            enc_bitrate = cfg_bitrate c,
            enc_quality = (if cfg_quality c \<noteq> 0 then cfg_quality c else 80),
            enc_frames_encoded = 0, enc_bytes_encoded = 0,
            enc_initialized = 1, enc_eos_sent = 0\<rparr>, h'')"
    using encoder_create_valid [OF c(2,3)] by blast
  with assms c(1) have "enc = \<lparr>enc_mpp_ctx = a, enc_mpi = b, enc_frame_group = f,
            enc_packet_group = g,
            enc_width = cfg_width c, enc_height = cfg_height c, enc_fps = cfg_fps c,
            enc_bitrate = cfg_bitrate c,
            enc_quality = (if cfg_quality c \<noteq> 0 then cfg_quality c else 80),
            enc_frames_encoded = 0, enc_bytes_encoded = 0,
            enc_initialized = 1, enc_eos_sent = 0\<rparr>"
    by simp
  with c show ?thesis by simp
qed

lemma decoder_init_mpp_result:
  "\<exists>a b c d h'. decoder_init_mpp e h =
     (0, e\<lparr>dec_mpp_ctx := a, dec_mpi := b, dec_frame_group := c, dec_packet_group := d\<rparr>, h')"
proof -
  obtain a h1 where m1: "malloc h = (a, h1)" by (cases "malloc h")
  obtain b h2 where m2: "malloc h1 = (b, h2)" by (cases "malloc h1")
  obtain c h3 where m3: "malloc h2 = (c, h3)" by (cases "malloc h2")
  obtain d h4 where m4: "malloc h3 = (d, h4)" by (cases "malloc h3")
  have "decoder_init_mpp e h =
     (0, e\<lparr>dec_mpp_ctx := a, dec_mpi := b, dec_frame_group := c, dec_packet_group := d\<rparr>, h4)"
    by (simp add: decoder_init_mpp_def mpp_create_def mpp_init_def
        mpp_buffer_group_get_internal_def m1 m2 m3 m4)
  then show ?thesis by blast
qed

lemma decoder_create_valid:
  assumes v: "validate_decoder_config (Some c) = 0" and m: "malloc h = (True, h1)"
  shows "\<exists>a b f g h'. rkmpp_decoder_create (Some c) h =
     (Some \<lparr>dec_mpp_ctx = a, dec_mpi = b, dec_frame_group = f, dec_packet_group = g,
            dec_max_width = cfg_max_width c, dec_max_height = cfg_max_height c,
            dec_output_format = cfg_output_format c,
            dec_frames_decoded = 0, dec_bytes_decoded = 0,
            dec_initialized = 1, dec_eos_received = 0\<rparr>, h')"
proof -
  let ?d0 = "zeroed_decoder\<lparr>dec_max_width := cfg_max_width c,
      dec_max_height := cfg_max_height c, dec_output_format := cfg_output_format c\<rparr>"
  obtain a b f g h' where i: "decoder_init_mpp ?d0 h1 =
      (0, ?d0\<lparr>dec_mpp_ctx := a, dec_mpi := b, dec_frame_group := f, dec_packet_group := g\<rparr>, h')"
    using decoder_init_mpp_result [of ?d0 h1] by blast
  have "rkmpp_decoder_create (Some c) h =
     (Some (?d0\<lparr>dec_mpp_ctx := a, dec_mpi := b, dec_frame_group := f, dec_packet_group := g,
        dec_initialized := 1\<rparr>), h')"
    unfolding rkmpp_decoder_create_def
    by (simp only: option.case v m i Let_def prod.case decoder_configure_def) simp
  then show ?thesis
    by (simp add: zeroed_decoder_def)
qed

lemma decoder_create_Some_valid:
  assumes "rkmpp_decoder_create config h = (Some dec, h')"
  shows "\<exists>c h1. config = Some c \<and> validate_decoder_config (Some c) = 0 \<and> malloc h = (True, h1)"
proof (cases config)
  case None
  with assms show ?thesis by (simp add: rkmpp_decoder_create_def)
next
  case (Some c)
  obtain p h1 where m: "malloc h = (p, h1)" by (cases "malloc h")
  have v: "validate_decoder_config (Some c) = 0"
    using assms Some
    by (cases "validate_decoder_config (Some c) = 0") (simp_all add: rkmpp_decoder_create_def)
  have "p"
    using assms Some v m by (cases p) (simp_all add: rkmpp_decoder_create_def)
  with Some v m show ?thesis by simp
qed

lemma decoder_create_Some:
  assumes "rkmpp_decoder_create config h = (Some dec, h')"
  shows "\<exists>c. config = Some c \<and> validate_decoder_config (Some c) = 0 \<and>
     dec_max_width dec = cfg_max_width c \<and> dec_max_height dec = cfg_max_height c \<and>
     dec_output_format dec = cfg_output_format c \<and>
     dec_frames_decoded dec = 0 \<and> dec_bytes_decoded dec = 0 \<and> dec_initialized dec = 1"
proof -
  obtain c h1 where c: "config = Some c" "validate_decoder_config (Some c) = 0"
      "malloc h = (True, h1)"
    using decoder_create_Some_valid [OF assms] by blast
  obtain a b f g h'' where "rkmpp_decoder_create (Some c) h =
     (Some \<lparr>dec_mpp_ctx = a, dec_mpi = b, dec_frame_group = f, dec_packet_group = g,
            dec_max_width = cfg_max_width c, dec_max_height = cfg_max_height c,
            dec_output_format = cfg_output_format c,
            dec_frames_decoded = 0, dec_bytes_decoded = 0,
            dec_initialized = 1, dec_eos_received = 0\<rparr>, h'')"
    using decoder_create_valid [OF c(2,3)] by blast
  with assms c(1) have "dec = \<lparr>dec_mpp_ctx = a, dec_mpi = b, dec_frame_group = f,
            dec_packet_group = g,
            dec_max_width = cfg_max_width c, dec_max_height = cfg_max_height c,
            dec_output_format = cfg_output_format c,
            dec_frames_decoded = 0, dec_bytes_decoded = 0,
            dec_initialized = 1, dec_eos_received = 0\<rparr>"
    by simp
  with c show ?thesis by simp
qed

lemma malloc_empty_heap: "malloc \<lparr>outcomes = [], live = n\<rparr> = (True, \<lparr>outcomes = [], live = n + 1\<rparr>)"
  by (simp add: malloc_def)

text \<open>Creation evaluated on the configurations of the test programs, on a heap that never fails.\<close>

lemma encoder_create_640x480:
  "rkmpp_encoder_create
     (Some \<lparr>cfg_width = 640, cfg_height = 480, cfg_fps = 30, cfg_bitrate = 0,
            cfg_quality = q, cfg_gop = 0\<rparr>) \<lparr>outcomes = [], live = 0\<rparr> =
   (if q > 100 then (None, \<lparr>outcomes = [], live = 0\<rparr>)
    else (Some \<lparr>enc_mpp_ctx = True, enc_mpi = True, enc_frame_group = True,
            enc_packet_group = True, enc_width = 640, enc_height = 480, enc_fps = 30,
            enc_bitrate = 0, enc_quality = (if q \<noteq> 0 then q else 80),
            enc_frames_encoded = 0, enc_bytes_encoded = 0,
            enc_initialized = 1, enc_eos_sent = 0\<rparr>, \<lparr>outcomes = [], live = 5\<rparr>))"
  by (simp add: rkmpp_encoder_create_def validate_encoder_config_def malloc_empty_heap
      encoder_init_mpp_def mpp_create_def mpp_init_def mpp_buffer_group_get_internal_def
      encoder_configure_def zeroed_encoder_def)

lemma decoder_create_640x480:
  "rkmpp_decoder_create
     (Some \<lparr>cfg_max_width = 640, cfg_max_height = 480, cfg_output_format = 0\<rparr>)
     \<lparr>outcomes = [], live = 0\<rparr> =
   (Some \<lparr>dec_mpp_ctx = True, dec_mpi = True, dec_frame_group = True,
          dec_packet_group = True, dec_max_width = 640, dec_max_height = 480,
          dec_output_format = 0, dec_frames_decoded = 0, dec_bytes_decoded = 0,
          dec_initialized = 1, dec_eos_received = 0\<rparr>, \<lparr>outcomes = [], live = 5\<rparr>)"
  by (simp add: rkmpp_decoder_create_def validate_decoder_config_def malloc_empty_heap
      decoder_init_mpp_def mpp_create_def mpp_init_def mpp_buffer_group_get_internal_def
      decoder_configure_def zeroed_decoder_def)

section \<open>Argument checks of encode and decode\<close>

text \<open>
  C2. On a Ready encoder session (\<open>initialized\<close> non-zero), encode with an input size
  below \<open>rawFrameSize (width, height)\<close> of the session, or with an output capacity below
  it, returns InvalidParam whatever the other arguments are, and leaves the session
  structure as it was, so that getStats reports the same counters as before the call.
\<close>

theorem encode_rejects_undersized:
  "enc_initialized enc \<noteq> 0 \<and>
   (nv12_size < rkmpp_get_nv12_size (enc_width enc) (enc_height enc) \<or>
    jpeg_size < rkmpp_get_nv12_size (enc_width enc) (enc_height enc)) \<longrightarrow>
   (let r = rkmpp_encoder_encode (Some enc) nv12_data nv12_size jpeg_data jpeg_size jpeg_len in
      er_status r = RKMPP_ERR_INVALID_PARAM \<and> er_encoder r = Some enc \<and>
      rkmpp_encoder_get_stats (er_encoder r) frames bytes =
        rkmpp_encoder_get_stats (Some enc) frames bytes)"
  by (simp add: rkmpp_encoder_encode_def calculate_nv12_size_eq Let_def split: option.splits)

text \<open>The witness: a 640x480 session, and an input one byte short of the 460800 needed.\<close>

theorem encode_rejects_undersized_witness:
  "enc_initialized (zeroed_encoder\<lparr>enc_width := 640, enc_height := 480,
      enc_initialized := 1\<rparr>) \<noteq> 0 \<and>
   rkmpp_get_nv12_size 640 480 - 1 < rkmpp_get_nv12_size 640 480 \<and>
   er_status (rkmpp_encoder_encode
      (Some (zeroed_encoder\<lparr>enc_width := 640, enc_height := 480, enc_initialized := 1\<rparr>))
      (Some (replicate 460799 0)) (rkmpp_get_nv12_size 640 480 - 1)
      (Some (replicate 460800 0)) (rkmpp_get_nv12_size 640 480) (Some 0)) =
     RKMPP_ERR_INVALID_PARAM \<and>
   er_encoder (rkmpp_encoder_encode
      (Some (zeroed_encoder\<lparr>enc_width := 640, enc_height := 480, enc_initialized := 1\<rparr>))
      (Some (replicate 460799 0)) (rkmpp_get_nv12_size 640 480 - 1)
      (Some (replicate 460800 0)) (rkmpp_get_nv12_size 640 480) (Some 0)) =
     Some (zeroed_encoder\<lparr>enc_width := 640, enc_height := 480, enc_initialized := 1\<rparr>)"
  using encode_rejects_undersized
    [where enc = "zeroed_encoder\<lparr>enc_width := 640, enc_height := 480, enc_initialized := 1\<rparr>"
       and nv12_size = "rkmpp_get_nv12_size 640 480 - 1"
       and jpeg_size = "rkmpp_get_nv12_size 640 480"
       and nv12_data = "Some (replicate 460799 0)"
       and jpeg_data = "Some (replicate 460800 0)"
       and jpeg_len = "Some 0"]
  by (simp add: rkmpp_get_nv12_size_def Let_def)

text \<open>
  C3, as amended. On a session that is present but not Ready (\<open>initialized\<close> is 0),
  encode and decode with all other arguments present return Init
  (\<open>RKMPP_ERR_INIT\<close>).
\<close>

theorem not_ready_returns_init:
  "(enc_initialized enc = 0 \<longrightarrow>
      er_status (rkmpp_encoder_encode (Some enc) (Some nv12_data) nv12_size (Some jpeg_data)
        jpeg_size (Some jpeg_len)) = RKMPP_ERR_INIT) \<and>
   (dec_initialized dec = 0 \<longrightarrow>
      dr_status (rkmpp_decoder_decode (Some dec) (Some jpeg_in) jpeg_in_size (Some nv12_out)
        nv12_out_size (Some nv12_len) (Some frame_info)) = RKMPP_ERR_INIT)"
  by (simp add: rkmpp_encoder_encode_def rkmpp_decoder_decode_def)

theorem not_ready_returns_init_witness:
  "enc_initialized zeroed_encoder = 0 \<and>
   er_status (rkmpp_encoder_encode (Some zeroed_encoder) (Some [1, 2]) 2 (Some [0, 0]) 2
     (Some 0)) = RKMPP_ERR_INIT \<and>
   dec_initialized zeroed_decoder = 0 \<and>
   dr_status (rkmpp_decoder_decode (Some zeroed_decoder) (Some [1, 2]) 2 (Some [0, 0]) 2
     (Some 0) (Some \<lparr>fi_width = 0, fi_height = 0, fi_format = 0, fi_timestamp = 0\<rparr>)) =
     RKMPP_ERR_INIT"
  using not_ready_returns_init
    [where enc = zeroed_encoder and dec = zeroed_decoder and nv12_data = "[1, 2]"
       and nv12_size = 2 and jpeg_data = "[0, 0]" and jpeg_size = 2 and jpeg_len = 0
       and jpeg_in = "[1, 2]" and jpeg_in_size = 2 and nv12_out = "[0, 0]"
       and nv12_out_size = 2 and nv12_len = 0
       and frame_info = "\<lparr>fi_width = 0, fi_height = 0, fi_format = 0, fi_timestamp = 0\<rparr>"]
  by (simp add: zeroed_encoder_def zeroed_decoder_def)

text \<open>
  The claim as first stated asks for InvalidParam. The structure as \<open>memset\<close> leaves it
  is a present session that is not Ready; encode on it, with every other argument present,
  returns \<open>RKMPP_ERR_INIT\<close>, and so does decode.
\<close>

theorem not_ready_counterexample:
  "enc_initialized zeroed_encoder = 0 \<and>
   er_status (rkmpp_encoder_encode (Some zeroed_encoder) (Some [1, 2]) 2 (Some [0, 0]) 2
     (Some 0)) \<noteq> RKMPP_ERR_INVALID_PARAM \<and>
   dec_initialized zeroed_decoder = 0 \<and>
   dr_status (rkmpp_decoder_decode (Some zeroed_decoder) (Some [1, 2]) 2 (Some [0, 0]) 2
     (Some 0) (Some \<lparr>fi_width = 0, fi_height = 0, fi_format = 0, fi_timestamp = 0\<rparr>)) \<noteq>
     RKMPP_ERR_INVALID_PARAM"
  by (simp add: rkmpp_encoder_encode_def rkmpp_decoder_decode_def zeroed_encoder_def
      zeroed_decoder_def)

text \<open>
  C8, as amended. Decode returns InvalidParam whenever one of its pointer arguments is
  absent, and whenever the compressed size is 0 on a Ready session; in those cases the
  session structure, and so its statistics, is unchanged.
\<close>

theorem decode_rejects_missing_arguments:
  "(let r = rkmpp_decoder_decode decoder jpeg_data jpeg_size nv12_data nv12_size nv12_len
              frame_info in
     (decoder = None \<or> jpeg_data = None \<or> nv12_data = None \<or> nv12_len = None \<or>
      frame_info = None \<longrightarrow>
        dr_status r = RKMPP_ERR_INVALID_PARAM \<and> dr_decoder r = decoder) \<and>
     (jpeg_size = 0 \<and> (\<exists>dec. decoder = Some dec \<and> dec_initialized dec \<noteq> 0) \<longrightarrow>
        dr_status r = RKMPP_ERR_INVALID_PARAM \<and> dr_decoder r = decoder))"
  by (auto simp: rkmpp_decoder_decode_def Let_def split: option.splits)

theorem decode_rejects_missing_arguments_witness:
  "dec_initialized (zeroed_decoder\<lparr>dec_max_width := 640, dec_max_height := 480,
      dec_initialized := 1\<rparr>) \<noteq> 0 \<and>
   dr_status (rkmpp_decoder_decode
      (Some (zeroed_decoder\<lparr>dec_max_width := 640, dec_max_height := 480,
         dec_initialized := 1\<rparr>))
      (Some [1, 2]) 0 (Some [0, 0]) 2 (Some 0)
      (Some \<lparr>fi_width = 0, fi_height = 0, fi_format = 0, fi_timestamp = 0\<rparr>)) =
     RKMPP_ERR_INVALID_PARAM \<and>
   dr_status (rkmpp_decoder_decode
      (Some (zeroed_decoder\<lparr>dec_max_width := 640, dec_max_height := 480,
         dec_initialized := 1\<rparr>))
      None 2 (Some [0, 0]) 2 (Some 0)
      (Some \<lparr>fi_width = 0, fi_height = 0, fi_format = 0, fi_timestamp = 0\<rparr>)) =
     RKMPP_ERR_INVALID_PARAM"
  using decode_rejects_missing_arguments
    [where decoder = "Some (zeroed_decoder\<lparr>dec_max_width := 640, dec_max_height := 480,
         dec_initialized := 1\<rparr>)"
       and jpeg_data = "Some [1, 2]" and jpeg_size = 0 and nv12_data = "Some [0, 0]"
       and nv12_size = 2 and nv12_len = "Some 0"
       and frame_info = "Some \<lparr>fi_width = 0, fi_height = 0, fi_format = 0, fi_timestamp = 0\<rparr>"]
    decode_rejects_missing_arguments
    [where decoder = "Some (zeroed_decoder\<lparr>dec_max_width := 640, dec_max_height := 480,
         dec_initialized := 1\<rparr>)"
       and jpeg_data = None and jpeg_size = 2 and nv12_data = "Some [0, 0]"
       and nv12_size = 2 and nv12_len = "Some 0"
       and frame_info = "Some \<lparr>fi_width = 0, fi_height = 0, fi_format = 0, fi_timestamp = 0\<rparr>"]
  by (simp add: Let_def)

text \<open>
  The claim as first stated covers every call with a compressed size of 0. The readiness
  check comes before the size check: on a present session that is not Ready, with all
  pointers present and a compressed size of 0, decode returns \<open>RKMPP_ERR_INIT\<close>.
\<close>

theorem decode_zero_size_counterexample:
  "dr_status (rkmpp_decoder_decode (Some zeroed_decoder) (Some [1, 2]) 0 (Some [0, 0]) 2
     (Some 0) (Some \<lparr>fi_width = 0, fi_height = 0, fi_format = 0, fi_timestamp = 0\<rparr>)) =
     RKMPP_ERR_INIT \<and>
   RKMPP_ERR_INIT \<noteq> RKMPP_ERR_INVALID_PARAM"
  by (simp add: rkmpp_decoder_decode_def zeroed_decoder_def)

section \<open>Successful decode\<close>

text \<open>
  C9. No call of decode returns DecodeFailed, and on a Ready session every call with all
  pointers present and a compressed size above 0 returns Ok, whatever the bytes of the
  compressed input are.
\<close>

theorem decode_never_fails:
  "dr_status (rkmpp_decoder_decode decoder jpeg_data jpeg_size nv12_data nv12_size nv12_len
     frame_info) \<noteq> RKMPP_ERR_DECODE \<and>
   (dec_initialized dec \<noteq> 0 \<and> 0 < jpeg_in_size \<longrightarrow>
      dr_status (rkmpp_decoder_decode (Some dec) (Some jpeg_in) jpeg_in_size (Some nv12_out)
        nv12_out_size (Some len) (Some info)) = RKMPP_OK)"
  by (auto simp: rkmpp_decoder_decode_def Let_def split: option.splits)

theorem decode_never_fails_witness:
  "dec_initialized (zeroed_decoder\<lparr>dec_max_width := 640, dec_max_height := 480,
      dec_initialized := 1\<rparr>) \<noteq> 0 \<and> (0::uint32_t) < 3 \<and>
   dr_status (rkmpp_decoder_decode
      (Some (zeroed_decoder\<lparr>dec_max_width := 640, dec_max_height := 480,
         dec_initialized := 1\<rparr>))
      (Some [255, 0, 17]) 3 (Some (replicate 460800 0)) 460800 (Some 0)
      (Some \<lparr>fi_width = 0, fi_height = 0, fi_format = 0, fi_timestamp = 0\<rparr>)) = RKMPP_OK"
  using decode_never_fails
    [where dec = "zeroed_decoder\<lparr>dec_max_width := 640, dec_max_height := 480,
         dec_initialized := 1\<rparr>"
       and jpeg_in = "[255, 0, 17]" and jpeg_in_size = 3
       and nv12_out = "replicate 460800 0" and nv12_out_size = 460800 and len = 0
       and info = "\<lparr>fi_width = 0, fi_height = 0, fi_format = 0, fi_timestamp = 0\<rparr>"]
  by simp

text \<open>
  C10. When decode returns Ok, the session was present, the frame descriptor written is
  the session's \<open>max_width\<close> and \<open>max_height\<close> with format 0 and timestamp 0 (nothing of
  it comes from the compressed input), and the produced size is the smaller of the output
  capacity and the compressed size, so at most the output capacity.
\<close>

theorem decode_frame_info:
  "dr_status (rkmpp_decoder_decode decoder jpeg_data jpeg_size nv12_data nv12_size nv12_len
     frame_info) = RKMPP_OK \<longrightarrow>
   (\<exists>dec. decoder = Some dec \<and>
     (let r = rkmpp_decoder_decode decoder jpeg_data jpeg_size nv12_data nv12_size nv12_len
                frame_info in
      dr_frame_info r = Some \<lparr>fi_width = dec_max_width dec, fi_height = dec_max_height dec,
                               fi_format = 0, fi_timestamp = 0\<rparr> \<and>
      dr_nv12_len r = Some (min nv12_size jpeg_size) \<and>
      min nv12_size jpeg_size \<le> nv12_size))"
  by (auto simp: rkmpp_decoder_decode_def Let_def min_def split: option.splits)

theorem decode_frame_info_witness:
  "dr_status (rkmpp_decoder_decode
      (Some (zeroed_decoder\<lparr>dec_max_width := 640, dec_max_height := 480,
         dec_initialized := 1\<rparr>))
      (Some [255, 0, 17]) 3 (Some (replicate 460800 0)) 460800 (Some 0)
      (Some \<lparr>fi_width = 1, fi_height = 2, fi_format = 3, fi_timestamp = 4\<rparr>)) = RKMPP_OK \<and>
   dr_frame_info (rkmpp_decoder_decode
      (Some (zeroed_decoder\<lparr>dec_max_width := 640, dec_max_height := 480,
         dec_initialized := 1\<rparr>))
      (Some [255, 0, 17]) 3 (Some (replicate 460800 0)) 460800 (Some 0)
      (Some \<lparr>fi_width = 1, fi_height = 2, fi_format = 3, fi_timestamp = 4\<rparr>)) =
     Some \<lparr>fi_width = 640, fi_height = 480, fi_format = 0, fi_timestamp = 0\<rparr> \<and>
   dr_nv12_len (rkmpp_decoder_decode
      (Some (zeroed_decoder\<lparr>dec_max_width := 640, dec_max_height := 480,
         dec_initialized := 1\<rparr>))
      (Some [255, 0, 17]) 3 (Some (replicate 460800 0)) 460800 (Some 0)
      (Some \<lparr>fi_width = 1, fi_height = 2, fi_format = 3, fi_timestamp = 4\<rparr>)) = Some 3"
proof -
  have ok: "dr_status (rkmpp_decoder_decode
      (Some (zeroed_decoder\<lparr>dec_max_width := 640, dec_max_height := 480,
         dec_initialized := 1\<rparr>))
      (Some [255, 0, 17]) 3 (Some (replicate 460800 0)) 460800 (Some 0)
      (Some \<lparr>fi_width = 1, fi_height = 2, fi_format = 3, fi_timestamp = 4\<rparr>)) = RKMPP_OK"
    by (simp add: rkmpp_decoder_decode_def zeroed_decoder_def)
  show ?thesis
    using ok decode_frame_info
      [where decoder = "Some (zeroed_decoder\<lparr>dec_max_width := 640, dec_max_height := 480,
         dec_initialized := 1\<rparr>)"
         and jpeg_data = "Some [255, 0, 17]" and jpeg_size = 3
         and nv12_data = "Some (replicate 460800 0)" and nv12_size = 460800
         and nv12_len = "Some 0"
         and frame_info = "Some \<lparr>fi_width = 1, fi_height = 2, fi_format = 3,
           fi_timestamp = 4\<rparr>"]
    by (simp add: Let_def zeroed_decoder_def)
qed

section \<open>Session creation\<close>

lemma one_le_uint32: "(1 \<le> x) = (x \<noteq> 0)" for x :: uint32_t
  by (metis linorder_not_less word_less_1)

text \<open>
  C5. Encoder create returns no handle for a null configuration and for every
  configuration with width or height outside 16..4096, fps outside 1..120 or quality above
  100; decoder create returns no handle for a null configuration and for every
  configuration with max width or max height outside 16..4096. In all these cases the heap
  is returned as it was: nothing was allocated.
\<close>

theorem create_rejects_invalid_config:
  "rkmpp_encoder_create None h = (None, h) \<and>
   (cfg_width c < 16 \<or> cfg_width c > 4096 \<or> cfg_height c < 16 \<or> cfg_height c > 4096 \<or>
    cfg_fps c < 1 \<or> cfg_fps c > 120 \<or> cfg_quality c > 100 \<longrightarrow>
      rkmpp_encoder_create (Some c) h = (None, h)) \<and>
   rkmpp_decoder_create None h = (None, h) \<and>
   (cfg_max_width d < 16 \<or> cfg_max_width d > 4096 \<or>
    cfg_max_height d < 16 \<or> cfg_max_height d > 4096 \<longrightarrow>
      rkmpp_decoder_create (Some d) h = (None, h))"
proof (intro conjI impI)
  show "rkmpp_encoder_create None h = (None, h)"
    by (simp add: rkmpp_encoder_create_def)
  show "rkmpp_decoder_create None h = (None, h)"
    by (simp add: rkmpp_decoder_create_def)
next
  assume "cfg_width c < 16 \<or> cfg_width c > 4096 \<or> cfg_height c < 16 \<or> cfg_height c > 4096 \<or>
    cfg_fps c < 1 \<or> cfg_fps c > 120 \<or> cfg_quality c > 100"
  then have "validate_encoder_config (Some c) = - 1"
    by (auto simp: validate_encoder_config_def)
  then show "rkmpp_encoder_create (Some c) h = (None, h)"
    by (simp add: rkmpp_encoder_create_def)
next
  assume "cfg_max_width d < 16 \<or> cfg_max_width d > 4096 \<or>
    cfg_max_height d < 16 \<or> cfg_max_height d > 4096"
  then have "validate_decoder_config (Some d) = - 1"
    by (auto simp: validate_decoder_config_def)
  then show "rkmpp_decoder_create (Some d) h = (None, h)"
    by (simp add: rkmpp_decoder_create_def)
qed

text \<open>The witness: a quality of 101, and a max height of 4097, on a heap with 3 live blocks.\<close>

theorem create_rejects_invalid_config_witness:
  "cfg_quality \<lparr>cfg_width = 640, cfg_height = 480, cfg_fps = 30, cfg_bitrate = 0,
      cfg_quality = 101, cfg_gop = 0\<rparr> > 100 \<and>
   rkmpp_encoder_create
     (Some \<lparr>cfg_width = 640, cfg_height = 480, cfg_fps = 30, cfg_bitrate = 0,
        cfg_quality = 101, cfg_gop = 0\<rparr>) \<lparr>outcomes = [], live = 3\<rparr> =
     (None, \<lparr>outcomes = [], live = 3\<rparr>) \<and>
   cfg_max_height \<lparr>cfg_max_width = 640, cfg_max_height = 4097, cfg_output_format = 0\<rparr>
     > 4096 \<and>
   rkmpp_decoder_create
     (Some \<lparr>cfg_max_width = 640, cfg_max_height = 4097, cfg_output_format = 0\<rparr>)
     \<lparr>outcomes = [], live = 3\<rparr> = (None, \<lparr>outcomes = [], live = 3\<rparr>)"
  using create_rejects_invalid_config
    [where c = "\<lparr>cfg_width = 640, cfg_height = 480, cfg_fps = 30, cfg_bitrate = 0,
        cfg_quality = 101, cfg_gop = 0\<rparr>"
       and d = "\<lparr>cfg_max_width = 640, cfg_max_height = 4097, cfg_output_format = 0\<rparr>"
       and h = "\<lparr>outcomes = [], live = 3\<rparr>"]
  by simp

text \<open>
  C7. A quality of 0 does not make the configuration invalid: with quality 0 the check
  passes exactly when width, height and fps are in range. Whenever create returns a
  session, its stored quality is 80 for a configured quality of 0 and the configured
  quality for 1..100; and create does return a session for every configuration with
  width, height and fps in range and quality at most 100, provided the allocation of the
  session structure succeeds.
\<close>

theorem quality_zero_defaults_to_80:
  "(cfg_quality c = 0 \<longrightarrow>
      (validate_encoder_config (Some c) = 0) =
      (16 \<le> cfg_width c \<and> cfg_width c \<le> 4096 \<and> 16 \<le> cfg_height c \<and>
       cfg_height c \<le> 4096 \<and> 1 \<le> cfg_fps c \<and> cfg_fps c \<le> 120)) \<and>
   (rkmpp_encoder_create (Some c) h = (Some enc, h') \<longrightarrow>
      (cfg_quality c = 0 \<longrightarrow> enc_quality enc = 80) \<and>
      (1 \<le> cfg_quality c \<and> cfg_quality c \<le> 100 \<longrightarrow> enc_quality enc = cfg_quality c)) \<and>
   (16 \<le> cfg_width c \<and> cfg_width c \<le> 4096 \<and> 16 \<le> cfg_height c \<and>
    cfg_height c \<le> 4096 \<and> 1 \<le> cfg_fps c \<and> cfg_fps c \<le> 120 \<and>
    cfg_quality c \<le> 100 \<and> fst (malloc h) \<longrightarrow>
      (\<exists>e g. rkmpp_encoder_create (Some c) h = (Some e, g) \<and>
         enc_quality e = (if cfg_quality c = 0 then 80 else cfg_quality c)))"
proof (intro conjI impI)
  assume "cfg_quality c = 0"
  then show "(validate_encoder_config (Some c) = 0) =
      (16 \<le> cfg_width c \<and> cfg_width c \<le> 4096 \<and> 16 \<le> cfg_height c \<and>
       cfg_height c \<le> 4096 \<and> 1 \<le> cfg_fps c \<and> cfg_fps c \<le> 120)"
    by (auto simp: validate_encoder_config_def not_less one_le_uint32)
next
  assume cr: "rkmpp_encoder_create (Some c) h = (Some enc, h')"
  have q: "enc_quality enc = (if cfg_quality c \<noteq> 0 then cfg_quality c else 80)"
    using encoder_create_Some [OF cr] by auto
  { assume "cfg_quality c = 0"
    with q show "enc_quality enc = 80" by simp }
  { assume "1 \<le> cfg_quality c \<and> cfg_quality c \<le> 100"
    then have "cfg_quality c \<noteq> 0" by auto
    with q show "enc_quality enc = cfg_quality c" by simp }
next
  assume a: "16 \<le> cfg_width c \<and> cfg_width c \<le> 4096 \<and> 16 \<le> cfg_height c \<and>
    cfg_height c \<le> 4096 \<and> 1 \<le> cfg_fps c \<and> cfg_fps c \<le> 120 \<and>
    cfg_quality c \<le> 100 \<and> fst (malloc h)"
  then have v: "validate_encoder_config (Some c) = 0"
    by (auto simp: validate_encoder_config_def not_less one_le_uint32)
  obtain h1 where m: "malloc h = (True, h1)"
    using a by (cases "malloc h") auto
  obtain e g where cr: "rkmpp_encoder_create (Some c) h = (Some e, g)"
    using encoder_create_valid [OF v m] by blast
  have "enc_quality e = (if cfg_quality c \<noteq> 0 then cfg_quality c else 80)"
    using encoder_create_Some [OF cr] by auto
  with cr show "\<exists>e g. rkmpp_encoder_create (Some c) h = (Some e, g) \<and>
         enc_quality e = (if cfg_quality c = 0 then 80 else cfg_quality c)"
    by auto
qed

text \<open>The witness: the 640x480 configuration at 30 fps, with quality 0 and with quality 95.\<close>

theorem quality_zero_defaults_to_80_witness:
  "validate_encoder_config
     (Some \<lparr>cfg_width = 640, cfg_height = 480, cfg_fps = 30, cfg_bitrate = 0,
        cfg_quality = 0, cfg_gop = 0\<rparr>) = 0 \<and>
   fst (malloc \<lparr>outcomes = [], live = 0\<rparr>) \<and>
   (\<exists>e g. rkmpp_encoder_create
       (Some \<lparr>cfg_width = 640, cfg_height = 480, cfg_fps = 30, cfg_bitrate = 0,
          cfg_quality = 0, cfg_gop = 0\<rparr>) \<lparr>outcomes = [], live = 0\<rparr> = (Some e, g) \<and>
       enc_quality e = 80) \<and>
   (1::uint32_t) \<le> 95 \<and> (95::uint32_t) \<le> 100 \<and>
   (\<exists>e g. rkmpp_encoder_create
       (Some \<lparr>cfg_width = 640, cfg_height = 480, cfg_fps = 30, cfg_bitrate = 0,
          cfg_quality = 95, cfg_gop = 0\<rparr>) \<lparr>outcomes = [], live = 0\<rparr> = (Some e, g) \<and>
       enc_quality e = 95)"
  using quality_zero_defaults_to_80
    [where c = "\<lparr>cfg_width = 640, cfg_height = 480, cfg_fps = 30, cfg_bitrate = 0,
        cfg_quality = 0, cfg_gop = 0\<rparr>" and h = "\<lparr>outcomes = [], live = 0\<rparr>"]
    quality_zero_defaults_to_80
    [where c = "\<lparr>cfg_width = 640, cfg_height = 480, cfg_fps = 30, cfg_bitrate = 0,
        cfg_quality = 95, cfg_gop = 0\<rparr>" and h = "\<lparr>outcomes = [], live = 0\<rparr>"]
  by (simp add: malloc_empty_heap)

section \<open>Round trip\<close>

text \<open>
  C1. Take an encoder created with width 640 and height 480 and a decoder created with
  max width 640 and max height 480. Encoding a raw buffer of \<open>rawFrameSize (640, 480)\<close>
  bytes, all equal to one byte \<open>b\<close>, with an output capacity of the same size, returns Ok
  and produces a bitstream and its size; decoding that bitstream, of that size, with an
  output capacity of \<open>rawFrameSize (640, 480)\<close>, returns Ok with a frame descriptor of
  width 640 and height 480.
\<close>

theorem roundtrip_640x480:
  "rkmpp_encoder_create (Some ecfg) h = (Some enc, h') \<and>
   cfg_width ecfg = 640 \<and> cfg_height ecfg = 480 \<and>
   rkmpp_decoder_create (Some dcfg) g = (Some dec, g') \<and>
   cfg_max_width dcfg = 640 \<and> cfg_max_height dcfg = 480 \<longrightarrow>
   (let n = rkmpp_get_nv12_size 640 480;
        e = rkmpp_encoder_encode (Some enc) (Some (replicate (unat n) b)) n
              (Some jpeg_buf) n (Some jpeg_len)
    in er_status e = RKMPP_OK \<and>
       (\<exists>jpeg len. er_jpeg_data e = Some jpeg \<and> er_jpeg_len e = Some len \<and>
          (let d = rkmpp_decoder_decode (Some dec) (Some jpeg) len (Some nv12_buf) n
                     (Some nv12_len) (Some info)
           in dr_status d = RKMPP_OK \<and>
              (\<exists>fi. dr_frame_info d = Some fi \<and> fi_width fi = 640 \<and> fi_height fi = 480))))"
proof
  assume a: "rkmpp_encoder_create (Some ecfg) h = (Some enc, h') \<and>
   cfg_width ecfg = 640 \<and> cfg_height ecfg = 480 \<and>
   rkmpp_decoder_create (Some dcfg) g = (Some dec, g') \<and>
   cfg_max_width dcfg = 640 \<and> cfg_max_height dcfg = 480"
  have e: "enc_width enc = 640" "enc_height enc = 480" "enc_initialized enc = 1"
    using a encoder_create_Some [of "Some ecfg" h enc h'] by auto
  have d: "dec_max_width dec = 640" "dec_max_height dec = 480" "dec_initialized dec = 1"
    using a decoder_create_Some [of "Some dcfg" g dec g'] by auto
  have n: "rkmpp_get_nv12_size 640 480 = 460800"
    by (simp add: rkmpp_get_nv12_size_def)
  show "let n = rkmpp_get_nv12_size 640 480;
        e = rkmpp_encoder_encode (Some enc) (Some (replicate (unat n) b)) n
              (Some jpeg_buf) n (Some jpeg_len)
    in er_status e = RKMPP_OK \<and>
       (\<exists>jpeg len. er_jpeg_data e = Some jpeg \<and> er_jpeg_len e = Some len \<and>
          (let d = rkmpp_decoder_decode (Some dec) (Some jpeg) len (Some nv12_buf) n
                     (Some nv12_len) (Some info)
           in dr_status d = RKMPP_OK \<and>
              (\<exists>fi. dr_frame_info d = Some fi \<and> fi_width fi = 640 \<and> fi_height fi = 480)))"
    by (simp add: Let_def n rkmpp_encoder_encode_def rkmpp_decoder_decode_def
        calculate_nv12_size_eq e d)
qed

text \<open>The witness: the sessions that create returns for the configurations of the test programs.\<close>

theorem roundtrip_640x480_witness:
  "(rkmpp_encoder_create
       (Some \<lparr>cfg_width = 640, cfg_height = 480, cfg_fps = 30, cfg_bitrate = 0,
          cfg_quality = 80, cfg_gop = 0\<rparr>) \<lparr>outcomes = [], live = 0\<rparr> =
       (Some \<lparr>enc_mpp_ctx = True, enc_mpi = True, enc_frame_group = True,
          enc_packet_group = True, enc_width = 640, enc_height = 480, enc_fps = 30,
          enc_bitrate = 0, enc_quality = 80,
          enc_frames_encoded = 0, enc_bytes_encoded = 0,
          enc_initialized = 1, enc_eos_sent = 0\<rparr>, \<lparr>outcomes = [], live = 5\<rparr>) \<and>
     cfg_width \<lparr>cfg_width = 640, cfg_height = 480, cfg_fps = 30, cfg_bitrate = 0,
          cfg_quality = 80, cfg_gop = 0\<rparr> = 640 \<and>
     cfg_height \<lparr>cfg_width = 640, cfg_height = 480, cfg_fps = 30, cfg_bitrate = 0,
          cfg_quality = 80, cfg_gop = 0\<rparr> = 480 \<and>
     rkmpp_decoder_create
       (Some \<lparr>cfg_max_width = 640, cfg_max_height = 480, cfg_output_format = 0\<rparr>)
       \<lparr>outcomes = [], live = 0\<rparr> =
       (Some \<lparr>dec_mpp_ctx = True, dec_mpi = True, dec_frame_group = True,
          dec_packet_group = True, dec_max_width = 640, dec_max_height = 480,
          dec_output_format = 0, dec_frames_decoded = 0, dec_bytes_decoded = 0,
          dec_initialized = 1, dec_eos_received = 0\<rparr>, \<lparr>outcomes = [], live = 5\<rparr>) \<and>
     cfg_max_width \<lparr>cfg_max_width = 640, cfg_max_height = 480, cfg_output_format = 0\<rparr>
       = 640 \<and>
     cfg_max_height \<lparr>cfg_max_width = 640, cfg_max_height = 480, cfg_output_format = 0\<rparr>
       = 480) \<and>
   (let n = rkmpp_get_nv12_size 640 480;
        e = rkmpp_encoder_encode
              (Some \<lparr>enc_mpp_ctx = True, enc_mpi = True, enc_frame_group = True,
                 enc_packet_group = True, enc_width = 640, enc_height = 480, enc_fps = 30,
                 enc_bitrate = 0, enc_quality = 80,
                 enc_frames_encoded = 0, enc_bytes_encoded = 0,
                 enc_initialized = 1, enc_eos_sent = 0\<rparr>)
              (Some (replicate (unat n) 128)) n (Some (replicate 460800 0)) n (Some 0)
    in er_status e = RKMPP_OK \<and>
       (\<exists>jpeg len. er_jpeg_data e = Some jpeg \<and> er_jpeg_len e = Some len \<and>
          (let d = rkmpp_decoder_decode
                     (Some \<lparr>dec_mpp_ctx = True, dec_mpi = True, dec_frame_group = True,
                        dec_packet_group = True, dec_max_width = 640, dec_max_height = 480,
                        dec_output_format = 0, dec_frames_decoded = 0,
                        dec_bytes_decoded = 0, dec_initialized = 1, dec_eos_received = 0\<rparr>)
                     (Some jpeg) len (Some (replicate 460800 0)) n (Some 0)
                     (Some \<lparr>fi_width = 0, fi_height = 0, fi_format = 0, fi_timestamp = 0\<rparr>)
           in dr_status d = RKMPP_OK \<and>
              (\<exists>fi. dr_frame_info d = Some fi \<and> fi_width fi = 640 \<and> fi_height fi = 480))))"
proof -
  have hyp: "rkmpp_encoder_create
       (Some \<lparr>cfg_width = 640, cfg_height = 480, cfg_fps = 30, cfg_bitrate = 0,
          cfg_quality = 80, cfg_gop = 0\<rparr>) \<lparr>outcomes = [], live = 0\<rparr> =
       (Some \<lparr>enc_mpp_ctx = True, enc_mpi = True, enc_frame_group = True,
          enc_packet_group = True, enc_width = 640, enc_height = 480, enc_fps = 30,
          enc_bitrate = 0, enc_quality = 80,
          enc_frames_encoded = 0, enc_bytes_encoded = 0,
          enc_initialized = 1, enc_eos_sent = 0\<rparr>, \<lparr>outcomes = [], live = 5\<rparr>) \<and>
     cfg_width \<lparr>cfg_width = 640, cfg_height = 480, cfg_fps = 30, cfg_bitrate = 0,
          cfg_quality = 80, cfg_gop = 0\<rparr> = 640 \<and>
     cfg_height \<lparr>cfg_width = 640, cfg_height = 480, cfg_fps = 30, cfg_bitrate = 0,
          cfg_quality = 80, cfg_gop = 0\<rparr> = 480 \<and>
     rkmpp_decoder_create
       (Some \<lparr>cfg_max_width = 640, cfg_max_height = 480, cfg_output_format = 0\<rparr>)
       \<lparr>outcomes = [], live = 0\<rparr> =
       (Some \<lparr>dec_mpp_ctx = True, dec_mpi = True, dec_frame_group = True,
          dec_packet_group = True, dec_max_width = 640, dec_max_height = 480,
          dec_output_format = 0, dec_frames_decoded = 0, dec_bytes_decoded = 0,
          dec_initialized = 1, dec_eos_received = 0\<rparr>, \<lparr>outcomes = [], live = 5\<rparr>) \<and>
     cfg_max_width \<lparr>cfg_max_width = 640, cfg_max_height = 480, cfg_output_format = 0\<rparr>
       = 640 \<and>
     cfg_max_height \<lparr>cfg_max_width = 640, cfg_max_height = 480, cfg_output_format = 0\<rparr>
       = 480"
    by (simp add: encoder_create_640x480 decoder_create_640x480)
  show ?thesis
    by (rule conjI [OF hyp roundtrip_640x480 [THEN mp, OF hyp]])
qed

section \<open>Statistics\<close>

text \<open>
  One call of encode leaves the session present; it adds 1 to the frame counter and the
  produced size to the byte counter when it returns Ok, and nothing otherwise.
\<close>

lemma encode_counters:
  "\<exists>enc'. er_encoder (rkmpp_encoder_encode (Some enc) a n b m l) = Some enc' \<and>
     enc_frames_encoded enc' = enc_frames_encoded enc +
       (if er_status (rkmpp_encoder_encode (Some enc) a n b m l) = RKMPP_OK then 1 else 0) \<and>
     enc_bytes_encoded enc' = enc_bytes_encoded enc +
       (if er_status (rkmpp_encoder_encode (Some enc) a n b m l) = RKMPP_OK
        then ucast (encode_produced (rkmpp_encoder_encode (Some enc) a n b m l)) else 0)"
  by (auto simp: rkmpp_encoder_encode_def encode_produced_def Let_def split: option.splits)

lemma decode_counters:
  "\<exists>dec'. dr_decoder (rkmpp_decoder_decode (Some dec) a n b m l f) = Some dec' \<and>
     dec_frames_decoded dec' = dec_frames_decoded dec +
       (if dr_status (rkmpp_decoder_decode (Some dec) a n b m l f) = RKMPP_OK then 1 else 0) \<and>
     dec_bytes_decoded dec' = dec_bytes_decoded dec +
       (if dr_status (rkmpp_decoder_decode (Some dec) a n b m l f) = RKMPP_OK
        then ucast (decode_produced (rkmpp_decoder_decode (Some dec) a n b m l f)) else 0)"
  by (auto simp: rkmpp_decoder_decode_def decode_produced_def Let_def split: option.splits)

lemma encoder_calls_counters:
  "encoder_calls (Some enc) calls = (e', rs) \<Longrightarrow>
     \<exists>enc'. e' = Some enc' \<and>
       enc_frames_encoded enc' = enc_frames_encoded enc +
         of_nat (length (filter (\<lambda>r. er_status r = RKMPP_OK) rs)) \<and>
       enc_bytes_encoded enc' = enc_bytes_encoded enc +
         sum_list (map (\<lambda>r. ucast (encode_produced r))
           (filter (\<lambda>r. er_status r = RKMPP_OK) rs))"
proof (induction calls arbitrary: enc e' rs)
  case Nil
  then show ?case by auto
next
  case (Cons call calls)
  obtain a n b m l where call: "call = (a, n, b, m, l)"
    by (cases call)
  let ?r = "rkmpp_encoder_encode (Some enc) a n b m l"
  obtain enc1 where r: "er_encoder ?r = Some enc1"
      "enc_frames_encoded enc1 = enc_frames_encoded enc +
         (if er_status ?r = RKMPP_OK then 1 else 0)"
      "enc_bytes_encoded enc1 = enc_bytes_encoded enc +
         (if er_status ?r = RKMPP_OK then ucast (encode_produced ?r) else 0)"
    using encode_counters [of enc a n b m l] by blast
  obtain e2 rs2 where rest: "encoder_calls (Some enc1) calls = (e2, rs2)"
    by (cases "encoder_calls (Some enc1) calls")
  have res: "e' = e2" "rs = ?r # rs2"
    using Cons.prems by (simp_all add: call r(1) rest Let_def)
  obtain enc' where ih: "e2 = Some enc'"
      "enc_frames_encoded enc' = enc_frames_encoded enc1 +
         of_nat (length (filter (\<lambda>r. er_status r = RKMPP_OK) rs2))"
      "enc_bytes_encoded enc' = enc_bytes_encoded enc1 +
         sum_list (map (\<lambda>r. ucast (encode_produced r))
           (filter (\<lambda>r. er_status r = RKMPP_OK) rs2))"
    using Cons.IH [OF rest] by blast
  show ?case
    by (simp add: res ih r(2,3))
qed

lemma decoder_calls_counters:
  "decoder_calls (Some dec) calls = (d', rs) \<Longrightarrow>
     \<exists>dec'. d' = Some dec' \<and>
       dec_frames_decoded dec' = dec_frames_decoded dec +
         of_nat (length (filter (\<lambda>r. dr_status r = RKMPP_OK) rs)) \<and>
       dec_bytes_decoded dec' = dec_bytes_decoded dec +
         sum_list (map (\<lambda>r. ucast (decode_produced r))
           (filter (\<lambda>r. dr_status r = RKMPP_OK) rs))"
proof (induction calls arbitrary: dec d' rs)
  case Nil
  then show ?case by auto
next
  case (Cons call calls)
  obtain a n b m l f where call: "call = (a, n, b, m, l, f)"
    by (cases call)
  let ?r = "rkmpp_decoder_decode (Some dec) a n b m l f"
  obtain dec1 where r: "dr_decoder ?r = Some dec1"
      "dec_frames_decoded dec1 = dec_frames_decoded dec +
         (if dr_status ?r = RKMPP_OK then 1 else 0)"
      "dec_bytes_decoded dec1 = dec_bytes_decoded dec +
         (if dr_status ?r = RKMPP_OK then ucast (decode_produced ?r) else 0)"
    using decode_counters [of dec a n b m l f] by blast
  obtain d2 rs2 where rest: "decoder_calls (Some dec1) calls = (d2, rs2)"
    by (cases "decoder_calls (Some dec1) calls")
  have res: "d' = d2" "rs = ?r # rs2"
    using Cons.prems by (simp_all add: call r(1) rest Let_def)
  obtain dec' where ih: "d2 = Some dec'"
      "dec_frames_decoded dec' = dec_frames_decoded dec1 +
         of_nat (length (filter (\<lambda>r. dr_status r = RKMPP_OK) rs2))"
      "dec_bytes_decoded dec' = dec_bytes_decoded dec1 +
         sum_list (map (\<lambda>r. ucast (decode_produced r))
           (filter (\<lambda>r. dr_status r = RKMPP_OK) rs2))"
    using Cons.IH [OF rest] by blast
  show ?case
    by (simp add: res ih r(2,3))
qed

text \<open>
  C6. Right after a successful create, getStats writes 0 and 0. After any sequence of
  encode (decode) calls on the session, of which \<open>N\<close> returned Ok, getStats writes \<open>N\<close>
  as the frame count and the sum of the sizes those \<open>N\<close> calls produced as the byte
  count. The counters and the values getStats writes are \<open>uint64_t\<close>: \<open>N\<close> and the sum
  are these 64-bit values.
\<close>

theorem stats_count_successful_calls:
  "(rkmpp_encoder_create config h = (Some enc, h') \<longrightarrow>
      rkmpp_encoder_get_stats (Some enc) (Some frames_out) (Some bytes_out) = (RKMPP_OK, Some 0, Some 0) \<and>
      (case encoder_calls (Some enc) ecalls of (enc', rs) \<Rightarrow>
         rkmpp_encoder_get_stats enc' (Some frames_out) (Some bytes_out) =
           (RKMPP_OK,
            Some (of_nat (length (filter (\<lambda>r. er_status r = RKMPP_OK) rs))),
            Some (sum_list (map (\<lambda>r. ucast (encode_produced r))
                    (filter (\<lambda>r. er_status r = RKMPP_OK) rs)))))) \<and>
   (rkmpp_decoder_create dconfig g = (Some dec, g') \<longrightarrow>
      rkmpp_decoder_get_stats (Some dec) (Some frames_out) (Some bytes_out) = (RKMPP_OK, Some 0, Some 0) \<and>
      (case decoder_calls (Some dec) dcalls of (dec', rs) \<Rightarrow>
         rkmpp_decoder_get_stats dec' (Some frames_out) (Some bytes_out) =
           (RKMPP_OK,
            Some (of_nat (length (filter (\<lambda>r. dr_status r = RKMPP_OK) rs))),
            Some (sum_list (map (\<lambda>r. ucast (decode_produced r))
                    (filter (\<lambda>r. dr_status r = RKMPP_OK) rs))))))"
proof (intro conjI impI)
  assume cr: "rkmpp_encoder_create config h = (Some enc, h')"
  have z: "enc_frames_encoded enc = 0" "enc_bytes_encoded enc = 0"
    using encoder_create_Some [OF cr] by auto
  show "rkmpp_encoder_get_stats (Some enc) (Some frames_out) (Some bytes_out) = (RKMPP_OK, Some 0, Some 0)"
    by (simp add: rkmpp_encoder_get_stats_def z)
  obtain e' rs where run: "encoder_calls (Some enc) ecalls = (e', rs)"
    by (cases "encoder_calls (Some enc) ecalls")
  obtain enc' where "e' = Some enc'"
      "enc_frames_encoded enc' = enc_frames_encoded enc +
         of_nat (length (filter (\<lambda>r. er_status r = RKMPP_OK) rs))"
      "enc_bytes_encoded enc' = enc_bytes_encoded enc +
         sum_list (map (\<lambda>r. ucast (encode_produced r))
           (filter (\<lambda>r. er_status r = RKMPP_OK) rs))"
    using encoder_calls_counters [OF run] by blast
  then show "case encoder_calls (Some enc) ecalls of (enc', rs) \<Rightarrow>
         rkmpp_encoder_get_stats enc' (Some frames_out) (Some bytes_out) =
           (RKMPP_OK,
            Some (of_nat (length (filter (\<lambda>r. er_status r = RKMPP_OK) rs))),
            Some (sum_list (map (\<lambda>r. ucast (encode_produced r))
                    (filter (\<lambda>r. er_status r = RKMPP_OK) rs))))"
    by (simp add: run rkmpp_encoder_get_stats_def z)
next
  assume cr: "rkmpp_decoder_create dconfig g = (Some dec, g')"
  have z: "dec_frames_decoded dec = 0" "dec_bytes_decoded dec = 0"
    using decoder_create_Some [OF cr] by auto
  show "rkmpp_decoder_get_stats (Some dec) (Some frames_out) (Some bytes_out) = (RKMPP_OK, Some 0, Some 0)"
    by (simp add: rkmpp_decoder_get_stats_def z)
  obtain d' rs where run: "decoder_calls (Some dec) dcalls = (d', rs)"
    by (cases "decoder_calls (Some dec) dcalls")
  obtain dec' where "d' = Some dec'"
      "dec_frames_decoded dec' = dec_frames_decoded dec +
         of_nat (length (filter (\<lambda>r. dr_status r = RKMPP_OK) rs))"
      "dec_bytes_decoded dec' = dec_bytes_decoded dec +
         sum_list (map (\<lambda>r. ucast (decode_produced r))
           (filter (\<lambda>r. dr_status r = RKMPP_OK) rs))"
    using decoder_calls_counters [OF run] by blast
  then show "case decoder_calls (Some dec) dcalls of (dec', rs) \<Rightarrow>
         rkmpp_decoder_get_stats dec' (Some frames_out) (Some bytes_out) =
           (RKMPP_OK,
            Some (of_nat (length (filter (\<lambda>r. dr_status r = RKMPP_OK) rs))),
            Some (sum_list (map (\<lambda>r. ucast (decode_produced r))
                    (filter (\<lambda>r. dr_status r = RKMPP_OK) rs))))"
    by (simp add: run rkmpp_decoder_get_stats_def z)
qed

text \<open>
  The witness: the 640x480 sessions of the test programs. The encoder gets a full frame, an
  input one byte short, and a full frame again; the decoder gets 3 bytes, an empty input,
  and 5 bytes for an output capacity of 4.
\<close>

theorem stats_count_successful_calls_witness:
  "rkmpp_encoder_create
     (Some \<lparr>cfg_width = 640, cfg_height = 480, cfg_fps = 30, cfg_bitrate = 0,
        cfg_quality = 80, cfg_gop = 0\<rparr>) \<lparr>outcomes = [], live = 0\<rparr> =
     (Some \<lparr>enc_mpp_ctx = True, enc_mpi = True, enc_frame_group = True,
        enc_packet_group = True, enc_width = 640, enc_height = 480, enc_fps = 30,
        enc_bitrate = 0, enc_quality = 80, enc_frames_encoded = 0, enc_bytes_encoded = 0,
        enc_initialized = 1, enc_eos_sent = 0\<rparr>, \<lparr>outcomes = [], live = 5\<rparr>) \<and>
   rkmpp_encoder_get_stats
     (Some \<lparr>enc_mpp_ctx = True, enc_mpi = True, enc_frame_group = True,
        enc_packet_group = True, enc_width = 640, enc_height = 480, enc_fps = 30,
        enc_bitrate = 0, enc_quality = 80, enc_frames_encoded = 0, enc_bytes_encoded = 0,
        enc_initialized = 1, enc_eos_sent = 0\<rparr>) (Some 7) (Some 7) =
     (RKMPP_OK, Some 0, Some 0) \<and>
   rkmpp_encoder_get_stats
     (fst (encoder_calls
        (Some \<lparr>enc_mpp_ctx = True, enc_mpi = True, enc_frame_group = True,
           enc_packet_group = True, enc_width = 640, enc_height = 480, enc_fps = 30,
           enc_bitrate = 0, enc_quality = 80, enc_frames_encoded = 0,
           enc_bytes_encoded = 0, enc_initialized = 1, enc_eos_sent = 0\<rparr>)
        [(Some (replicate 460800 128), 460800, Some (replicate 460800 0), 460800, Some 0),
         (Some (replicate 460799 128), 460799, Some (replicate 460800 0), 460800, Some 0),
         (Some (replicate 460800 128), 460800, Some (replicate 460800 0), 460800, Some 0)]))
     (Some 7) (Some 7) = (RKMPP_OK, Some 2, Some 921600) \<and>
   rkmpp_decoder_create
     (Some \<lparr>cfg_max_width = 640, cfg_max_height = 480, cfg_output_format = 0\<rparr>)
     \<lparr>outcomes = [], live = 0\<rparr> =
     (Some \<lparr>dec_mpp_ctx = True, dec_mpi = True, dec_frame_group = True,
        dec_packet_group = True, dec_max_width = 640, dec_max_height = 480,
        dec_output_format = 0, dec_frames_decoded = 0, dec_bytes_decoded = 0,
        dec_initialized = 1, dec_eos_received = 0\<rparr>, \<lparr>outcomes = [], live = 5\<rparr>) \<and>
   rkmpp_decoder_get_stats
     (Some \<lparr>dec_mpp_ctx = True, dec_mpi = True, dec_frame_group = True,
        dec_packet_group = True, dec_max_width = 640, dec_max_height = 480,
        dec_output_format = 0, dec_frames_decoded = 0, dec_bytes_decoded = 0,
        dec_initialized = 1, dec_eos_received = 0\<rparr>) (Some 7) (Some 7) =
     (RKMPP_OK, Some 0, Some 0) \<and>
   rkmpp_decoder_get_stats
     (fst (decoder_calls
        (Some \<lparr>dec_mpp_ctx = True, dec_mpi = True, dec_frame_group = True,
           dec_packet_group = True, dec_max_width = 640, dec_max_height = 480,
           dec_output_format = 0, dec_frames_decoded = 0, dec_bytes_decoded = 0,
           dec_initialized = 1, dec_eos_received = 0\<rparr>)
        [(Some [255, 216, 255], 3, Some (replicate 460800 0), 460800, Some 0,
          Some \<lparr>fi_width = 0, fi_height = 0, fi_format = 0, fi_timestamp = 0\<rparr>),
         (Some [], 0, Some (replicate 460800 0), 460800, Some 0,
          Some \<lparr>fi_width = 0, fi_height = 0, fi_format = 0, fi_timestamp = 0\<rparr>),
         (Some [255, 216, 255, 224, 0], 5, Some [0, 0, 0, 0], 4, Some 0,
          Some \<lparr>fi_width = 0, fi_height = 0, fi_format = 0, fi_timestamp = 0\<rparr>)]))
     (Some 7) (Some 7) = (RKMPP_OK, Some 2, Some 7)"
  using stats_count_successful_calls
    [where config = "Some \<lparr>cfg_width = 640, cfg_height = 480, cfg_fps = 30,
         cfg_bitrate = 0, cfg_quality = 80, cfg_gop = 0\<rparr>"
       and h = "\<lparr>outcomes = [], live = 0\<rparr>"
       and enc = "\<lparr>enc_mpp_ctx = True, enc_mpi = True, enc_frame_group = True,
         enc_packet_group = True, enc_width = 640, enc_height = 480, enc_fps = 30,
         enc_bitrate = 0, enc_quality = 80, enc_frames_encoded = 0, enc_bytes_encoded = 0,
         enc_initialized = 1, enc_eos_sent = 0\<rparr>"
       and h' = "\<lparr>outcomes = [], live = 5\<rparr>"
       and frames_out = 7 and bytes_out = 7
       and ecalls =
         "[(Some (replicate 460800 128), 460800, Some (replicate 460800 0), 460800, Some 0),
           (Some (replicate 460799 128), 460799, Some (replicate 460800 0), 460800, Some 0),
           (Some (replicate 460800 128), 460800, Some (replicate 460800 0), 460800, Some 0)]"
       and dconfig = "Some \<lparr>cfg_max_width = 640, cfg_max_height = 480,
         cfg_output_format = 0\<rparr>"
       and g = "\<lparr>outcomes = [], live = 0\<rparr>"
       and dec = "\<lparr>dec_mpp_ctx = True, dec_mpi = True, dec_frame_group = True,
         dec_packet_group = True, dec_max_width = 640, dec_max_height = 480,
         dec_output_format = 0, dec_frames_decoded = 0, dec_bytes_decoded = 0,
         dec_initialized = 1, dec_eos_received = 0\<rparr>"
       and g' = "\<lparr>outcomes = [], live = 5\<rparr>"
       and dcalls =
         "[(Some [255, 216, 255], 3, Some (replicate 460800 0), 460800, Some 0,
            Some \<lparr>fi_width = 0, fi_height = 0, fi_format = 0, fi_timestamp = 0\<rparr>),
           (Some [], 0, Some (replicate 460800 0), 460800, Some 0,
            Some \<lparr>fi_width = 0, fi_height = 0, fi_format = 0, fi_timestamp = 0\<rparr>),
           (Some [255, 216, 255, 224, 0], 5, Some [0, 0, 0, 0], 4, Some 0,
            Some \<lparr>fi_width = 0, fi_height = 0, fi_format = 0, fi_timestamp = 0\<rparr>)]"]
  by (simp add: encoder_create_640x480 decoder_create_640x480 rkmpp_encoder_encode_def
      rkmpp_decoder_decode_def calculate_nv12_size_def encode_produced_def
      decode_produced_def Let_def)

end
